theory Spec2Isabelle
  imports Main "HOL-Library.Word"
begin

section \<open>JavaScript strings\<close>

text \<open>
  A JavaScript string is a sequence of UTF-16 code units; \<open>length\<close>, \<open>slice\<close> and
  \<open>trim\<close> all count code units. ASCII literals of the source are written through \<open>js\<close>,
  the Korean ones as their code units.
\<close>

type_synonym jschar = "16 word"
type_synonym jsstring = "jschar list"

definition js :: "string \<Rightarrow> jsstring" where
  "js s = map (\<lambda>c. of_char c) s"

definition whiteSpaceUnits :: "jschar list" where
  \<comment> \<open>ECMAScript WhiteSpace and LineTerminator code points, the ones \<open>trim\<close> strips.\<close>
  "whiteSpaceUnits =
     [0x9, 0xA, 0xB, 0xC, 0xD, 0x20, 0xA0, 0x1680,
      0x2000, 0x2001, 0x2002, 0x2003, 0x2004, 0x2005, 0x2006, 0x2007, 0x2008, 0x2009, 0x200A,
      0x2028, 0x2029, 0x202F, 0x205F, 0x3000, 0xFEFF]"

definition isWhiteSpace :: "jschar \<Rightarrow> bool" where
  "isWhiteSpace c = (c \<in> set whiteSpaceUnits)"

definition trimStart :: "jsstring \<Rightarrow> jsstring" where
  "trimStart s = dropWhile isWhiteSpace s"

definition trim :: "jsstring \<Rightarrow> jsstring" where
  \<comment> \<open>\<open>String.prototype.trim\<close>\<close>
  "trim s = rev (dropWhile isWhiteSpace (rev (trimStart s)))"

definition slice0 :: "nat \<Rightarrow> jsstring \<Rightarrow> jsstring" where
  \<comment> \<open>\<open>s.slice(0, n)\<close> for a literal \<open>n \<ge> 0\<close>: the first \<open>n\<close> code units, all of \<open>s\<close> when it is shorter.\<close>
  "slice0 n s = take n s"

subsection \<open>\<open>parseInt\<close> with no radix argument\<close>

definition digitValue :: "jschar \<Rightarrow> nat option" where
  "digitValue c =
     (if 0x30 \<le> c \<and> c \<le> 0x39 then Some (unat c - 0x30)
      else if 0x61 \<le> c \<and> c \<le> 0x66 then Some (unat c - 0x61 + 10)
      else if 0x41 \<le> c \<and> c \<le> 0x46 then Some (unat c - 0x41 + 10)
      else None)"

definition isRadixDigit :: "nat \<Rightarrow> jschar \<Rightarrow> bool" where
  "isRadixDigit R c = (case digitValue c of Some d \<Rightarrow> d < R | None \<Rightarrow> False)"

definition mathInt :: "nat \<Rightarrow> jsstring \<Rightarrow> nat" where
  "mathInt R Z = foldl (\<lambda>acc c. acc * R + (case digitValue c of Some d \<Rightarrow> d | None \<Rightarrow> 0)) 0 Z"

definition parseInt :: "jsstring \<Rightarrow> int option" where
  \<comment> \<open>\<open>None\<close> is NaN. The sign of a zero result is dropped: \<open>-0\<close> and \<open>+0\<close> are both falsy,
      and \<open>Math.max\<close>/\<open>Math.min\<close> are the only other consumers. The result is the exact
      integer; the rounding of the Number type only touches magnitudes above \<open>2 ^ 53\<close>.\<close>
  "parseInt inputString =
     (let S = trimStart inputString;
          sign = (case S of c # _ \<Rightarrow> if c = 0x2D then - 1 else 1 | [] \<Rightarrow> 1);
          S1 = (case S of c # rest \<Rightarrow> if c = 0x2B \<or> c = 0x2D then rest else S | [] \<Rightarrow> S);
          hex = (case S1 of a # b # _ \<Rightarrow> a = 0x30 \<and> (b = 0x78 \<or> b = 0x58) | _ \<Rightarrow> False);
          R = (if hex then 16 else 10);
          S2 = (if hex then drop 2 S1 else S1);
          Z = takeWhile (isRadixDigit R) S2
      in if Z = [] then None else Some (sign * int (mathInt R Z)))"

section \<open>The form state (\<open>types.ts\<close>, \<open>App.tsx\<close>, \<open>StudentInfoForm.tsx\<close>)\<close>

record Model =
  name :: jsstring
  full_name :: jsstring
  display_name :: jsstring

text \<open>The JSON body of \<open>POST /generate-opinions\<close>; \<open>None\<close> is \<open>null\<close>.\<close>

record GenerateBody =
  name :: "jsstring option"
  good_subjects :: "jsstring list"
  weak_subjects :: "jsstring list"
  personality :: "jsstring list"
  characteristics :: "jsstring option"
  target_length :: int
  model_name :: jsstring

text \<open>The three \<open>useState\<close> cells of \<open>ModelSelector\<close>.\<close>

record SelectorState =
  models :: "Model list"
  isLoading :: bool
  error :: "jsstring option"

record StudentInfo =
  name :: jsstring
  goodSubjects :: "jsstring list"
  weakSubjects :: "jsstring list"
  personality :: "jsstring list"
  characteristics :: jsstring
  targetLength :: int
  modelName :: jsstring

definition initialStudentInfo :: StudentInfo where
  "initialStudentInfo =
     \<lparr> name = [], goodSubjects = [], weakSubjects = [], personality = [],
       characteristics = [], targetLength = 75, modelName = js ''gemini-2.5-flash'' \<rparr>"

datatype SubjectType = Good | Weak

definition toggleArrayItem :: "jsstring list \<Rightarrow> jsstring \<Rightarrow> jsstring list" where
  "toggleArrayItem array item =
     (if item \<in> set array then filter (\<lambda>i. i \<noteq> item) array else array @ [item])"

definition handleSubjectToggle :: "jsstring \<Rightarrow> SubjectType \<Rightarrow> StudentInfo \<Rightarrow> StudentInfo" where
  "handleSubjectToggle subject type prev =
     (case type of
        Good \<Rightarrow> prev\<lparr> goodSubjects := toggleArrayItem (goodSubjects prev) subject,
                      weakSubjects := filter (\<lambda>s. s \<noteq> subject) (weakSubjects prev) \<rparr>
      | Weak \<Rightarrow> prev\<lparr> weakSubjects := toggleArrayItem (weakSubjects prev) subject,
                      goodSubjects := filter (\<lambda>s. s \<noteq> subject) (goodSubjects prev) \<rparr>)"

definition handlePersonalityToggle :: "jsstring \<Rightarrow> StudentInfo \<Rightarrow> StudentInfo" where
  "handlePersonalityToggle trait prev =
     prev\<lparr> personality := toggleArrayItem (personality prev) trait \<rparr>"

definition handleResetGoodSubjects :: "StudentInfo \<Rightarrow> StudentInfo" where
  "handleResetGoodSubjects prev = prev\<lparr> goodSubjects := [] \<rparr>"

definition handleResetWeakSubjects :: "StudentInfo \<Rightarrow> StudentInfo" where
  "handleResetWeakSubjects prev = prev\<lparr> weakSubjects := [] \<rparr>"

definition handleResetPersonality :: "StudentInfo \<Rightarrow> StudentInfo" where
  "handleResetPersonality prev = prev\<lparr> personality := [] \<rparr>"

definition onNameChange :: "jsstring \<Rightarrow> StudentInfo \<Rightarrow> StudentInfo" where
  \<comment> \<open>the \<open>onChange\<close> of \<open>name-input\<close>; the argument is \<open>e.target.value\<close>\<close>
  "onNameChange targetValue prev = (let v = slice0 5 targetValue in prev\<lparr> name := v \<rparr>)"

definition orDefault :: "int option \<Rightarrow> int \<Rightarrow> int" where
  \<comment> \<open>\<open>x || d\<close> on a number: NaN and zero are falsy.\<close>
  "orDefault x d = (case x of None \<Rightarrow> d | Some v \<Rightarrow> if v = 0 then d else v)"

definition onTargetLengthChange :: "jsstring \<Rightarrow> StudentInfo \<Rightarrow> StudentInfo" where
  \<comment> \<open>the \<open>onChange\<close> of \<open>target-length-input\<close>\<close>
  "onTargetLengthChange targetValue prev =
     (let v = orDefault (parseInt targetValue) 75;
          clampedValue = min (max v 50) 100
      in prev\<lparr> targetLength := clampedValue \<rparr>)"

definition onCharacteristicsChange :: "jsstring \<Rightarrow> StudentInfo \<Rightarrow> StudentInfo" where
  \<comment> \<open>the \<open>onChange\<close> of \<open>characteristics-input\<close>\<close>
  "onCharacteristicsChange targetValue prev =
     (let v = slice0 40 targetValue in prev\<lparr> characteristics := v \<rparr>)"

definition handleModelChange :: "jsstring \<Rightarrow> StudentInfo \<Rightarrow> StudentInfo" where
  "handleModelChange m prev = prev\<lparr> modelName := m \<rparr>"

definition handleReset :: "StudentInfo \<Rightarrow> StudentInfo" where
  "handleReset prev = initialStudentInfo"

text \<open>
  Every way the application writes \<open>studentInfo\<close>: the form's handlers, the model
  selector and the reset shortcut. \<open>handleGenerate\<close> only reads it.
\<close>

datatype event =
    NameChange jsstring
  | TargetLengthChange jsstring
  | CharacteristicsChange jsstring
  | SubjectToggle jsstring SubjectType
  | PersonalityToggle jsstring
  | ResetGoodSubjects
  | ResetWeakSubjects
  | ResetPersonality
  | ModelChange jsstring
  | Reset

fun step :: "event \<Rightarrow> StudentInfo \<Rightarrow> StudentInfo" where
  "step (NameChange v) s = onNameChange v s"
| "step (TargetLengthChange v) s = onTargetLengthChange v s"
| "step (CharacteristicsChange v) s = onCharacteristicsChange v s"
| "step (SubjectToggle subject type) s = handleSubjectToggle subject type s"
| "step (PersonalityToggle trait) s = handlePersonalityToggle trait s"
| "step ResetGoodSubjects s = handleResetGoodSubjects s"
| "step ResetWeakSubjects s = handleResetWeakSubjects s"
| "step ResetPersonality s = handleResetPersonality s"
| "step (ModelChange m) s = handleModelChange m s"
| "step Reset s = handleReset s"

definition run :: "event list \<Rightarrow> StudentInfo" where
  \<comment> \<open>the state after a sequence of events, starting from the initial \<open>useState\<close> value\<close>
  "run es = foldl (\<lambda>s e. step e s) initialStudentInfo es"

inductive reachable :: "StudentInfo \<Rightarrow> bool" where
  reach_init: "reachable initialStudentInfo"
| reach_step: "reachable s \<Longrightarrow> reachable (step e s)"

section \<open>The shared API client (\<open>utils/api.ts\<close>)\<close>

definition MSG_REQUEST_FAILED :: jsstring where
  \<comment> \<open>the literal of line 30, "an error occurred while processing the request"\<close>
  "MSG_REQUEST_FAILED =
     [0xC694, 0xCCAD, 0x20, 0xCC98, 0xB9AC, 0x20, 0xC911, 0x20, 0xC624, 0xB958, 0xAC00, 0x20,
      0xBC1C, 0xC0DD, 0xD588, 0xC2B5, 0xB2C8, 0xB2E4, 0x2E]"

definition MSG_NO_CONNECTION :: jsstring where
  \<comment> \<open>the literal of line 33, "cannot connect to the server, check the network"\<close>
  "MSG_NO_CONNECTION =
     [0xC11C, 0xBC84, 0xC5D0, 0x20, 0xC5F0, 0xACB0, 0xD560, 0x20, 0xC218, 0x20, 0xC5C6, 0xC2B5,
      0xB2C8, 0xB2E4, 0x2E, 0x20, 0xB124, 0xD2B8, 0xC6CC, 0xD06C, 0xB97C, 0x20, 0xD655, 0xC778,
      0xD574, 0xC8FC, 0xC138, 0xC694, 0x2E]"

definition MSG_REQUEST_SETUP :: jsstring where
  \<comment> \<open>the literal of line 35, "an error occurred while setting up the request"\<close>
  "MSG_REQUEST_SETUP =
     [0xC694, 0xCCAD, 0x20, 0xC124, 0xC815, 0x20, 0xC911, 0x20, 0xC624, 0xB958, 0xAC00, 0x20,
      0xBC1C, 0xC0DD, 0xD588, 0xC2B5, 0xB2C8, 0xB2E4, 0x2E]"

text \<open>
  A call of a built-in or browser function returns a value or throws; an awaited promise
  that rejects throws at the \<open>await\<close>.
\<close>

datatype 'a outcome = Returns 'a | Throws

text \<open>
  The body of a response is whatever the server sent: the type argument of
  \<open>AxiosError<{ detail?: string }>\<close> is erased at run time. A value of the body is a JSON
  value (or, for a body that is not JSON, the string itself). A number is kept by what the
  handler can observe of it: whether it is zero, and the text \<open>Number::toString\<close> gives.
  An object is the list of its own properties, each key once.
\<close>

datatype json =
    JNull
  | JBool bool
  | JNumber bool jsstring
  | JString jsstring
  | JArray "json list"
  | JObject "(jsstring \<times> json) list"

text \<open>
  The fields of the error the interceptor reads. \<open>None\<close> is \<open>undefined\<close>; \<open>request\<close>
  tells whether \<open>error.request\<close> is set.
\<close>

record AxiosResponse =
  data :: "json option"
  status :: nat
  statusText :: jsstring

record AxiosError =
  response :: "AxiosResponse option"
  request :: bool

text \<open>What a rejected promise carries: an \<open>Error\<close> with its message, or any other value.\<close>

datatype Rejection = ErrorObj jsstring | NotAnError

fun truthyValue :: "json \<Rightarrow> bool" where
  "truthyValue JNull = False"
| "truthyValue (JBool b) = b"
| "truthyValue (JNumber zero txt) = (\<not> zero)"
| "truthyValue (JString s) = (s \<noteq> [])"
| "truthyValue (JArray xs) = True"
| "truthyValue (JObject props) = True"

definition truthy :: "json option \<Rightarrow> bool" where
  \<comment> \<open>\<open>undefined\<close> is falsy\<close>
  "truthy x = (case x of None \<Rightarrow> False | Some v \<Rightarrow> truthyValue v)"

definition orElse :: "json option \<Rightarrow> json option \<Rightarrow> json option" where
  \<comment> \<open>\<open>a || b\<close>\<close>
  "orElse a b = (if truthy a then a else b)"

definition orLiteral :: "json option \<Rightarrow> jsstring \<Rightarrow> json" where
  \<comment> \<open>\<open>a || 'literal'\<close>\<close>
  "orLiteral a d = (case a of Some v \<Rightarrow> if truthyValue v then v else JString d | None \<Rightarrow> JString d)"

definition optDetail :: "json option \<Rightarrow> json option" where
  \<comment> \<open>\<open>data?.detail\<close>: \<open>undefined\<close> when \<open>data\<close> is \<open>undefined\<close> or \<open>null\<close>, and when it
      is a value with no property \<open>detail\<close> (a string, a number, a boolean, an array)\<close>
  "optDetail d = (case d of Some (JObject props) \<Rightarrow> map_of props (js ''detail'') | _ \<Rightarrow> None)"

text \<open>
  \<open>ToString\<close>, which \<open>new Error(message)\<close> applies to its argument. An array is joined
  with commas, \<open>null\<close> elements giving the empty string. An object gives
  \<open>[object Object]\<close> through \<open>Object.prototype.toString\<close>, unless an own property
  \<open>toString\<close> hides that method: a JSON value is never callable, \<open>valueOf\<close> returns no
  primitive, and the conversion throws a TypeError.
\<close>

fun toStringJS :: "json \<Rightarrow> jsstring outcome"
  and joinElements :: "json list \<Rightarrow> jsstring outcome"
where
  "toStringJS JNull = Returns (js ''null'')"
| "toStringJS (JBool b) = Returns (if b then js ''true'' else js ''false'')"
| "toStringJS (JNumber zero txt) = Returns txt"
| "toStringJS (JString s) = Returns s"
| "toStringJS (JArray xs) = joinElements xs"
| "toStringJS (JObject props) =
     (if js ''toString'' \<in> set (map fst props) then Throws else Returns (js ''[object Object]''))"
| "joinElements [] = Returns []"
| "joinElements (x # xs) =
     (case (if x = JNull then Returns [] else toStringJS x) of
        Throws \<Rightarrow> Throws
      | Returns s \<Rightarrow>
          if xs = [] then Returns s
          else (case joinElements xs of
                  Throws \<Rightarrow> Throws
                | Returns r \<Rightarrow> Returns (s @ js '','' @ r)))"

definition newError :: "jsstring \<Rightarrow> json \<Rightarrow> Rejection" where
  \<comment> \<open>\<open>Promise.reject(new Error(message))\<close> inside the handler: when the conversion of
      \<open>message\<close> throws, the handler's promise rejects with the engine's TypeError, whose
      message \<open>typeErrorMessage\<close> is the engine's own\<close>
  "newError typeErrorMessage message =
     (case toStringJS message of
        Returns m \<Rightarrow> ErrorObj m
      | Throws \<Rightarrow> ErrorObj typeErrorMessage)"

definition responseRejected :: "jsstring \<Rightarrow> AxiosError \<Rightarrow> Rejection" where
  \<comment> \<open>the second argument of \<open>api.interceptors.response.use\<close>; the result is what the
      promise it returns rejects with\<close>
  "responseRejected typeErrorMessage err =
     (case response err of
        Some r \<Rightarrow>
          (let message = orLiteral (orElse (optDetail (data r)) (Some (JString (statusText r))))
                           MSG_REQUEST_FAILED
           in newError typeErrorMessage message)
      | None \<Rightarrow>
          if request err then newError typeErrorMessage (JString MSG_NO_CONNECTION)
          else newError typeErrorMessage (JString MSG_REQUEST_SETUP))"

definition throughInterceptors :: "jsstring \<Rightarrow> AxiosError + 'a \<Rightarrow> Rejection + 'a" where
  \<comment> \<open>a call through \<open>api\<close>: the fulfilled handler returns the response as it is, the
      rejected one is \<open>responseRejected\<close>\<close>
  "throughInterceptors typeErrorMessage r =
     (case r of Inl err \<Rightarrow> Inl (responseRejected typeErrorMessage err) | Inr resp \<Rightarrow> Inr resp)"

fun isJString :: "json \<Rightarrow> bool" where
  "isJString (JString s) = True"
| "isJString v = False"

definition detailAsDeclared :: "AxiosError \<Rightarrow> bool" where
  \<comment> \<open>the body keeps to the declared \<open>{ detail?: string }\<close> as far as the handler can tell:
      \<open>detail\<close> is absent, falsy or a string\<close>
  "detailAsDeclared err =
     (case response err of
        None \<Rightarrow> True
      | Some r \<Rightarrow>
          (case optDetail (data r) of
             None \<Rightarrow> True
           | Some v \<Rightarrow> isJString v \<or> \<not> truthyValue v))"

section \<open>\<open>App.tsx\<close>: \<open>handleGenerate\<close>\<close>

definition MSG_NO_INPUT :: jsstring where
  \<comment> \<open>the literal of line 44, "at least one item must be entered"\<close>
  "MSG_NO_INPUT =
     [0xCD5C, 0xC18C, 0x20, 0xD558, 0xB098, 0xC758, 0x20, 0xD56D, 0xBAA9, 0xC740, 0x20, 0xC785,
      0xB825, 0xD574, 0xC57C, 0x20, 0xD569, 0xB2C8, 0xB2E4, 0x2E]"

definition MSG_GENERATE_FAILED :: jsstring where
  \<comment> \<open>the literal of line 64, "an error occurred while generating opinions"\<close>
  "MSG_GENERATE_FAILED =
     [0xC758, 0xACAC, 0x20, 0xC0DD, 0xC131, 0x20, 0xC911, 0x20, 0xC624, 0xB958, 0xAC00, 0x20,
      0xBC1C, 0xC0DD, 0xD588, 0xC2B5, 0xB2C8, 0xB2E4, 0x2E]"

record AppState =
  studentInfo :: StudentInfo
  opinions :: "jsstring list"
  isLoading :: bool
  error :: "jsstring option"

datatype HttpRequest = Post jsstring GenerateBody | Get jsstring

definition hasInput :: "StudentInfo \<Rightarrow> bool" where
  "hasInput si =
     (trim (name si) \<noteq> [] \<or>
      length (goodSubjects si) > 0 \<or>
      length (weakSubjects si) > 0 \<or>
      length (personality si) > 0 \<or>
      trim (characteristics si) \<noteq> [])"

definition orNull :: "jsstring \<Rightarrow> jsstring option" where
  \<comment> \<open>\<open>s || null\<close>\<close>
  "orNull s = (if s = [] then None else Some s)"

definition generateBody :: "StudentInfo \<Rightarrow> GenerateBody" where
  "generateBody si =
     \<lparr> GenerateBody.name = orNull (trim (name si)),
       good_subjects = goodSubjects si,
       weak_subjects = weakSubjects si,
       GenerateBody.personality = personality si,
       GenerateBody.characteristics = orNull (trim (characteristics si)),
       target_length = targetLength si,
       model_name = modelName si \<rparr>"

definition errorMessage :: "Rejection \<Rightarrow> jsstring \<Rightarrow> jsstring" where
  \<comment> \<open>\<open>err instanceof Error ? err.message : fallback\<close>\<close>
  "errorMessage err fallback = (case err of ErrorObj m \<Rightarrow> m | NotAnError \<Rightarrow> fallback)"

definition handleGenerate ::
  "(jsstring \<Rightarrow> GenerateBody \<Rightarrow> Rejection + jsstring list) \<Rightarrow> AppState \<Rightarrow> AppState \<times> HttpRequest list"
where
  \<comment> \<open>\<open>post url body\<close> is how \<open>api.post\<close> settles: \<open>Inr\<close> the \<open>data.opinions\<close> of the
      response, \<open>Inl\<close> the rejection. The result is the state once the handler has run to
      its end, and the requests it issued.\<close>
  "handleGenerate post st =
     (if \<not> hasInput (studentInfo st) then (st\<lparr> error := Some MSG_NO_INPUT \<rparr>, [])
      else
        let st1 = st\<lparr> isLoading := True \<rparr>;
            st2 = st1\<lparr> error := None \<rparr>;
            url = js ''/generate-opinions'';
            body = generateBody (studentInfo st);
            st3 = (case post url body of
                     Inr dataOpinions \<Rightarrow> st2\<lparr> opinions := dataOpinions \<rparr>
                   | Inl err \<Rightarrow> st2\<lparr> error := Some (errorMessage err MSG_GENERATE_FAILED) \<rparr>)
        in (st3\<lparr> isLoading := False \<rparr>, [Post url body]))"

section \<open>\<open>ModelSelector.tsx\<close>: \<open>fetchModels\<close>\<close>

definition MSG_MODELS_FAILED :: jsstring where
  \<comment> \<open>the literal of line 28, "cannot load the model list"\<close>
  "MSG_MODELS_FAILED =
     [0xBAA8, 0xB378, 0x20, 0xBAA9, 0xB85D, 0xC744, 0x20, 0xBD88, 0xB7EC, 0xC62C, 0x20, 0xC218,
      0x20, 0xC5C6, 0xC2B5, 0xB2C8, 0xB2E4, 0x2E]"

definition fallbackModels :: "Model list" where
  \<comment> \<open>the array literal of lines 30 to 34; the display names end in Korean labels\<close>
  "fallbackModels =
     [\<lparr> Model.name = js ''gemini-2.5-flash'', full_name = js ''models/gemini-2.5-flash'',
        display_name = js ''Gemini 2.5 Flash ('' @ [0xBE60, 0xB984, 0x20, 0xB7, 0x20, 0xAD8C, 0xC7A5] @ js '')'' \<rparr>,
      \<lparr> Model.name = js ''gemini-2.5-pro'', full_name = js ''models/gemini-2.5-pro'',
        display_name = js ''Gemini 2.5 Pro ('' @ [0xACE0, 0xD488, 0xC9C8] @ js '')'' \<rparr>,
      \<lparr> Model.name = js ''gemini-2.5-flash-lite'', full_name = js ''models/gemini-2.5-flash-lite'',
        display_name = js ''Gemini 2.5 Flash Lite ('' @ [0xACBD, 0xB7C9] @ js '')'' \<rparr>]"

definition fetchModels ::
  "(jsstring \<Rightarrow> Rejection + Model list) \<Rightarrow> SelectorState \<Rightarrow> SelectorState \<times> HttpRequest list"
where
  \<comment> \<open>\<open>get url\<close> is how \<open>api.get\<close> settles: \<open>Inr\<close> the \<open>data.models\<close> of the response,
      \<open>Inl\<close> the rejection.\<close>
  "fetchModels get st =
     (let st1 = st\<lparr> SelectorState.isLoading := True \<rparr>;
          url = js ''/available-models'';
          st2 = (case get url of
                   Inr dataModels \<Rightarrow>
                     (st1\<lparr> models := dataModels \<rparr>)\<lparr> SelectorState.error := None \<rparr>
                 | Inl err \<Rightarrow>
                     (st1\<lparr> SelectorState.error := Some (errorMessage err MSG_MODELS_FAILED) \<rparr>)
                       \<lparr> models := fallbackModels \<rparr>)
      in (st2\<lparr> SelectorState.isLoading := False \<rparr>, [Get url]))"

section \<open>\<open>utils/clipboard.ts\<close>: \<open>copyToClipboard\<close>\<close>

record Element =
  nodeId :: nat
  tagName :: jsstring
  elemValue :: jsstring
  style :: "(jsstring \<times> jsstring) list"

text \<open>\<open>bodyChildren\<close> is \<open>None\<close> when \<open>document.body\<close> is \<open>null\<close>.\<close>

record Document =
  bodyChildren :: "Element list option"

text \<open>
  \<open>writeText\<close> is \<open>None\<close> when \<open>navigator.clipboard && navigator.clipboard.writeText\<close> is
  falsy; otherwise it tells, for each text, whether the promise resolves or rejects.
  \<open>execCommandCopy\<close> is what \<open>document.execCommand('copy')\<close> does.
\<close>

record Browser =
  writeText :: "(jsstring \<Rightarrow> unit outcome) option"
  execCommandCopy :: "bool outcome"

definition freshId :: "Element list \<Rightarrow> nat" where
  \<comment> \<open>the identity of a node that \<open>createElement\<close> has just made: no node of the document has it\<close>
  "freshId es = Suc (foldr (\<lambda>e m. max (nodeId e) m) es 0)"

definition createTextArea :: "Document \<Rightarrow> Element" where
  "createTextArea doc =
     \<lparr> nodeId = freshId (case bodyChildren doc of None \<Rightarrow> [] | Some kids \<Rightarrow> kids),
       tagName = js ''textarea'', elemValue = [], style = [] \<rparr>"

definition appendChild :: "Element \<Rightarrow> Document \<Rightarrow> unit outcome \<times> Document" where
  \<comment> \<open>\<open>document.body.appendChild(e)\<close>: a TypeError when there is no body\<close>
  "appendChild e doc =
     (case bodyChildren doc of
        None \<Rightarrow> (Throws, doc)
      | Some kids \<Rightarrow> (Returns (), doc\<lparr> bodyChildren := Some (kids @ [e]) \<rparr>))"

definition removeChild :: "Element \<Rightarrow> Document \<Rightarrow> unit outcome \<times> Document" where
  \<comment> \<open>\<open>document.body.removeChild(e)\<close>: throws when there is no body or \<open>e\<close> is not a child\<close>
  "removeChild e doc =
     (case bodyChildren doc of
        None \<Rightarrow> (Throws, doc)
      | Some kids \<Rightarrow>
          if nodeId e \<in> set (map nodeId kids)
          then (Returns (), doc\<lparr> bodyChildren := Some (filter (\<lambda>k. nodeId k \<noteq> nodeId e) kids) \<rparr>)
          else (Throws, doc))"

definition innerCatch :: "Element \<Rightarrow> Document \<Rightarrow> bool outcome \<times> Document" where
  \<comment> \<open>lines 23 to 26\<close>
  "innerCatch textArea doc =
     (case removeChild textArea doc of
        (Returns u, d) \<Rightarrow> (Returns False, d)
      | (Throws, d) \<Rightarrow> (Throws, d))"

definition innerTry :: "Browser \<Rightarrow> Element \<Rightarrow> Document \<Rightarrow> bool outcome \<times> Document" where
  \<comment> \<open>lines 19 to 26\<close>
  "innerTry br textArea doc =
     (case execCommandCopy br of
        Throws \<Rightarrow> innerCatch textArea doc
      | Returns successful \<Rightarrow>
          (case removeChild textArea doc of
             (Returns u, d) \<Rightarrow> (Returns successful, d)
           | (Throws, d) \<Rightarrow> innerCatch textArea d))"

definition execCommandFallback :: "Browser \<Rightarrow> jsstring \<Rightarrow> Document \<Rightarrow> bool outcome \<times> Document" where
  \<comment> \<open>lines 10 to 26; \<open>focus\<close> and \<open>select\<close> change neither the tree nor the control flow\<close>
  "execCommandFallback br text doc =
     (let textArea0 = createTextArea doc;
          textArea = textArea0\<lparr> elemValue := text,
                       style := [(js ''position'', js ''fixed''), (js ''left'', js ''-999999px''),
                                 (js ''top'', js ''-999999px'')] \<rparr>
      in case appendChild textArea doc of
           (Throws, d) \<Rightarrow> (Throws, d)
         | (Returns u, d) \<Rightarrow> innerTry br textArea d)"

definition outerTry :: "Browser \<Rightarrow> jsstring \<Rightarrow> Document \<Rightarrow> bool outcome \<times> Document" where
  \<comment> \<open>lines 3 to 26, the body of the outer \<open>try\<close>\<close>
  "outerTry br text doc =
     (case writeText br of
        Some w \<Rightarrow> (case w text of Returns u \<Rightarrow> (Returns True, doc) | Throws \<Rightarrow> (Throws, doc))
      | None \<Rightarrow> execCommandFallback br text doc)"

definition copyToClipboard :: "Browser \<Rightarrow> jsstring \<Rightarrow> Document \<Rightarrow> bool outcome \<times> Document" where
  \<comment> \<open>the outer \<open>catch\<close> logs and returns \<open>false\<close>\<close>
  "copyToClipboard br text doc =
     (case outerTry br text doc of
        (Throws, d) \<Rightarrow> (Returns False, d)
      | (Returns b, d) \<Rightarrow> (Returns b, d))"

section \<open>The opinion-generation core\<close>

text \<open>
  Modelled from the spec: the backend (\<open>services/gemini_service.py\<close>, \<open>api/routes.py\<close>)
  is not among the sources. Every definition of this section follows sections 3, 4 and 7
  of the specification and the fallback order given in the repository's \<open>CLAUDE.md\<close>;
  the prompt template, the provider, the decoder of the structured format and the catalog
  are parameters. Backend strings are \<open>string\<close>.
\<close>

record ModelDescriptor =
  md_name :: string
  md_fullName :: string
  md_displayName :: string

record ModelCatalogSnapshot =
  descriptors :: "ModelDescriptor list"
  fetchedAt :: nat

record StudentAttributes =
  attr_name :: "string option"
  attr_goodSubjects :: "string list"
  attr_weakSubjects :: "string list"
  attr_personalityTraits :: "string list"
  attr_characteristics :: "string option"
  attr_targetLength :: int
  attr_modelName :: string

record GenerationRequest =
  effectiveModel :: string
  prompt :: string
  lengthHint :: int

datatype ProviderFailure = Transient | Policy | Quota

datatype CoreError =
    ValidationError
  | ModelUnavailable
  | ProviderError ProviderFailure
  | ParseError string

subsection \<open>ModelResolver\<close>

definition flashTier :: string where
  "flashTier = ''gemini-2.5-flash''"

definition proTier :: string where
  "proTier = ''gemini-2.5-pro''"

definition findByName :: "string \<Rightarrow> ModelDescriptor list \<Rightarrow> ModelDescriptor option" where
  "findByName n ds = find (\<lambda>d. md_name d = n) ds"

text \<open>
  Modelled from the spec: \<open>ModelResolver.resolve\<close> (section 4.2), absent from the sources;
  steps 1 to 5 in order, first match wins.
\<close>

definition resolve :: "string \<Rightarrow> ModelCatalogSnapshot \<Rightarrow> CoreError + ModelDescriptor" where
  "resolve requestedName snapshot =
     (case findByName requestedName (descriptors snapshot) of
        Some d \<Rightarrow> Inr d
      | None \<Rightarrow>
     (case findByName flashTier (descriptors snapshot) of
        Some d \<Rightarrow> Inr d
      | None \<Rightarrow>
     (case findByName proTier (descriptors snapshot) of
        Some d \<Rightarrow> Inr d
      | None \<Rightarrow>
     (case descriptors snapshot of
        d # ds \<Rightarrow> Inr d
      | [] \<Rightarrow> Inl ModelUnavailable))))"

subsection \<open>GenerationClient\<close>

text \<open>
  Modelled from the spec: \<open>GenerationClient.generate\<close> (section 4.4), absent from the sources.
  \<open>provider k req\<close> is the outcome of attempt \<open>k\<close>; a timeout is a transient failure.
  One more attempt after a transient failure, none after a policy or quota failure.
\<close>

definition generate ::
  "(nat \<Rightarrow> GenerationRequest \<Rightarrow> ProviderFailure + string) \<Rightarrow> GenerationRequest \<Rightarrow> CoreError + string"
where
  "generate provider req =
     (case provider 0 req of
        Inr raw \<Rightarrow> Inr raw
      | Inl Transient \<Rightarrow>
          (case provider 1 req of
             Inr raw \<Rightarrow> Inr raw
           | Inl f \<Rightarrow> Inl (ProviderError f))
      | Inl f \<Rightarrow> Inl (ProviderError f))"

subsection \<open>ResponseParser\<close>

definition isSpace :: "char \<Rightarrow> bool" where
  "isSpace c = (c \<in> set [CHR 0x20, CHR 0x09, CHR 0x0A, CHR 0x0B, CHR 0x0C, CHR 0x0D])"

definition strip :: "string \<Rightarrow> string" where
  "strip s = rev (dropWhile isSpace (rev (dropWhile isSpace s)))"

fun splitLines :: "string \<Rightarrow> string list" where
  "splitLines [] = [[]]"
| "splitLines (c # cs) =
     (if c = CHR 0x0A then [] # splitLines cs
      else (case splitLines cs of l # ls \<Rightarrow> (c # l) # ls | [] \<Rightarrow> [[c]]))"

text \<open>The data document of tier 1, as the decoder of the structured format returns it.\<close>

datatype document = DString string | DArray "document list" | DObject "(string \<times> document) list" | DOther

fun stringEntry :: "document \<Rightarrow> string option" where
  "stringEntry (DString s) = Some s"
| "stringEntry d = None"

definition stringEntries :: "document list \<Rightarrow> string list" where
  \<comment> \<open>the entries of an array of strings; nothing when an entry is not a string\<close>
  "stringEntries ds = (if list_all (\<lambda>d. stringEntry d \<noteq> None) ds then List.map_filter stringEntry ds else [])"

text \<open>
  Modelled from the spec: tier 1 of \<open>ResponseParser\<close> (section 4.5), absent from the sources:
  a bare array of strings, or an object exposing an "opinions" array.
\<close>

definition tierStructured :: "(string \<Rightarrow> document option) \<Rightarrow> string \<Rightarrow> string list" where
  "tierStructured decode raw =
     (case decode raw of
        Some (DArray ds) \<Rightarrow> stringEntries ds
      | Some (DObject kvs) \<Rightarrow>
          (case map_of kvs ''opinions'' of Some (DArray ds) \<Rightarrow> stringEntries ds | _ \<Rightarrow> [])
      | _ \<Rightarrow> [])"

definition isDigit :: "char \<Rightarrow> bool" where
  "isDigit c = (48 \<le> (of_char c :: nat) \<and> (of_char c :: nat) \<le> 57)"

definition labelValue :: "string \<Rightarrow> nat" where
  "labelValue ds = foldl (\<lambda>acc c. acc * 10 + (of_char c - 48)) 0 ds"

definition numberedLine :: "string \<Rightarrow> (nat \<times> string) option" where
  \<comment> \<open>an integer label, a separator (period, colon or closing parenthesis), then text\<close>
  "numberedLine l =
     (let label = takeWhile isDigit l in
      case dropWhile isDigit l of
        sep # body \<Rightarrow>
          if label \<noteq> [] \<and> sep \<in> set [CHR ''.'', CHR '':'', CHR '')''] \<and> strip body \<noteq> []
          then Some (labelValue label, strip body) else None
      | [] \<Rightarrow> None)"

text \<open>
  Modelled from the spec: tier 2 of \<open>ResponseParser\<close> (section 4.5), absent from the sources:
  the bodies of the matching lines, in label order.
\<close>

definition tierNumbered :: "string \<Rightarrow> string list" where
  "tierNumbered raw = map snd (sort_key fst (List.map_filter numberedLine (splitLines raw)))"

fun scanQuoted :: "(char \<times> string) option \<Rightarrow> string \<Rightarrow> string list" where
  "scanQuoted st [] = []"
| "scanQuoted None (c # cs) =
     (if c = CHR 0x22 \<or> c = CHR 0x27 then scanQuoted (Some (c, [])) cs else scanQuoted None cs)"
| "scanQuoted (Some (q, acc)) (c # cs) =
     (if c = q then rev acc # scanQuoted None cs else scanQuoted (Some (q, c # acc)) cs)"

text \<open>
  Modelled from the spec: tier 3 of \<open>ResponseParser\<close> (section 4.5), absent from the sources:
  the substrings between matching quotation marks, up to five, in order of appearance.
\<close>

definition tierQuoted :: "string \<Rightarrow> string list" where
  "tierQuoted raw = take 5 (scanQuoted None raw)"

text \<open>
  Modelled from the spec: tier 4 of \<open>ResponseParser\<close> (section 4.5), absent from the sources:
  the first five of the trimmed non-blank lines.
\<close>

definition tierLines :: "string \<Rightarrow> string list" where
  "tierLines raw = take 5 (map strip (filter (\<lambda>l. strip l \<noteq> []) (splitLines raw)))"

definition tiers :: "(string \<Rightarrow> document option) \<Rightarrow> (string \<Rightarrow> string list) list" where
  "tiers decode = [tierStructured decode, tierNumbered, tierQuoted, tierLines]"

definition yieldsFive :: "string list \<Rightarrow> bool" where
  \<comment> \<open>exactly five entries, none of them blank\<close>
  "yieldsFive ys = (length ys = 5 \<and> list_all (\<lambda>y. strip y \<noteq> []) ys)"

fun firstYield :: "(string \<Rightarrow> string list) list \<Rightarrow> string \<Rightarrow> string list option" where
  "firstYield [] raw = None"
| "firstYield (t # ts) raw = (if yieldsFive (t raw) then Some (map strip (t raw)) else firstYield ts raw)"

text \<open>
  Modelled from the spec: \<open>ResponseParser.parse\<close> (section 4.5), absent from the sources:
  the first tier that yields exactly five non-empty trimmed strings wins; when none
  does, \<open>ParseError\<close> carrying the raw text.
\<close>

definition parse :: "(string \<Rightarrow> document option) \<Rightarrow> string \<Rightarrow> CoreError + string list" where
  "parse decode raw =
     (case firstYield (tiers decode) raw of
        Some ops \<Rightarrow> Inr ops
      | None \<Rightarrow> Inl (ParseError raw))"

subsection \<open>OpinionService\<close>

text \<open>
  What the service is given: the catalog's current snapshot, the prompt template as a
  total function, the provider's generation call, the decoder of tier 1 and the optional
  maximum length of an opinion.
\<close>

record Service =
  catalogCurrent :: ModelCatalogSnapshot
  build :: "StudentAttributes \<Rightarrow> string"
  generateText :: "nat \<Rightarrow> GenerationRequest \<Rightarrow> ProviderFailure + string"
  decodeDocument :: "string \<Rightarrow> document option"
  maxChars :: "nat option"

definition clip :: "nat option \<Rightarrow> string \<Rightarrow> string" where
  "clip bound s = (case bound of None \<Rightarrow> s | Some n \<Rightarrow> take n s)"

text \<open>
  Modelled from the spec: \<open>OpinionService.generateOpinions\<close> (section 4.6), absent from the
  sources: resolve, build, generate, parse; a failing step ends the request with its
  error.
\<close>

definition generateOpinions :: "Service \<Rightarrow> StudentAttributes \<Rightarrow> CoreError + string list" where
  "generateOpinions svc attributes =
     (case resolve (attr_modelName attributes) (catalogCurrent svc) of
        Inl e \<Rightarrow> Inl e
      | Inr m \<Rightarrow>
          (let req = \<lparr> effectiveModel = md_name m, prompt = build svc attributes,
                       lengthHint = attr_targetLength attributes \<rparr>
           in case generate (generateText svc) req of
                Inl e \<Rightarrow> Inl e
              | Inr raw \<Rightarrow>
                  (case parse (decodeDocument svc) raw of
                     Inl e \<Rightarrow> Inl e
                   | Inr ops \<Rightarrow> Inr (map (clip (maxChars svc)) ops))))"

section \<open>Invariants of the form state\<close>

lemma reachable_run: "reachable (run es)"
proof -
  have "reachable s \<Longrightarrow> reachable (foldl (\<lambda>s e. step e s) s es)" for s
    by (induction es arbitrary: s) (simp_all add: reachable.reach_step)
  then show ?thesis by (simp add: run_def reachable.reach_init)
qed

subsection \<open>Length caps\<close>

lemma step_caps:
  assumes "length (name s) \<le> 5 \<and> length (characteristics s) \<le> 40"
  shows "length (name (step e s)) \<le> 5 \<and> length (characteristics (step e s)) \<le> 40"
  using assms
  by (cases e)
     (simp_all add: onNameChange_def onTargetLengthChange_def onCharacteristicsChange_def
        handleSubjectToggle_def handlePersonalityToggle_def handleResetGoodSubjects_def
        handleResetWeakSubjects_def handleResetPersonality_def handleModelChange_def
        handleReset_def initialStudentInfo_def slice0_def Let_def split: SubjectType.splits)

lemma reachable_caps:
  "reachable s \<Longrightarrow> length (name s) \<le> 5 \<and> length (characteristics s) \<le> 40"
proof (induction rule: reachable.induct)
  case reach_init
  show ?case by (simp add: initialStudentInfo_def)
next
  case (reach_step s e)
  from reach_step.IH show ?case by (rule step_caps)
qed

text \<open>
  Claim C6. For every input string the name handler stores its first 5 code units and the
  characteristics handler its first 40, so the stored name has at most 5 characters and
  the stored characteristics at most 40; both caps hold in every reachable form state.
\<close>

theorem length_caps:
  "name (onNameChange v s) = take 5 v \<and> length (name (onNameChange v s)) \<le> 5 \<and>
   characteristics (onCharacteristicsChange v s) = take 40 v \<and>
   length (characteristics (onCharacteristicsChange v s)) \<le> 40 \<and>
   (reachable s \<longrightarrow> length (name s) \<le> 5 \<and> length (characteristics s) \<le> 40)"
  using reachable_caps [of s]
  by (simp add: onNameChange_def onCharacteristicsChange_def slice0_def)

theorem length_caps_witness:
  "reachable (run [NameChange (js ''abcdefgh''), CharacteristicsChange (js ''kind'')]) \<and>
   length (name (run [NameChange (js ''abcdefgh''), CharacteristicsChange (js ''kind'')])) \<le> 5 \<and>
   length (characteristics (run [NameChange (js ''abcdefgh''), CharacteristicsChange (js ''kind'')])) \<le> 40"
proof -
  have "reachable (run [NameChange (js ''abcdefgh''), CharacteristicsChange (js ''kind'')])"
    by (rule reachable_run)
  with length_caps [of "[]" "run [NameChange (js ''abcdefgh''), CharacteristicsChange (js ''kind'')]"]
  show ?thesis by simp
qed

subsection \<open>Disjoint subject lists\<close>

lemma toggle_subset: "set (toggleArrayItem xs x) \<subseteq> insert x (set xs)"
  by (auto simp: toggleArrayItem_def)

lemma toggle_disjoint:
  assumes "set (goodSubjects s) \<inter> set (weakSubjects s) = {}"
  shows "set (goodSubjects (handleSubjectToggle subject t s)) \<inter>
         set (weakSubjects (handleSubjectToggle subject t s)) = {}"
proof (cases t)
  case Good
  have "set (toggleArrayItem (goodSubjects s) subject) \<inter>
        set (filter (\<lambda>x. x \<noteq> subject) (weakSubjects s)) = {}"
    using assms toggle_subset [of "goodSubjects s" subject] by auto
  with Good show ?thesis by (simp add: handleSubjectToggle_def)
next
  case Weak
  have "set (filter (\<lambda>x. x \<noteq> subject) (goodSubjects s)) \<inter>
        set (toggleArrayItem (weakSubjects s) subject) = {}"
    using assms toggle_subset [of "weakSubjects s" subject] by auto
  with Weak show ?thesis by (simp add: handleSubjectToggle_def)
qed

lemma step_disjoint:
  assumes "set (goodSubjects s) \<inter> set (weakSubjects s) = {}"
  shows "set (goodSubjects (step e s)) \<inter> set (weakSubjects (step e s)) = {}"
proof (cases e)
  case (SubjectToggle subject t)
  then show ?thesis using toggle_disjoint [OF assms] by simp
qed (use assms in \<open>simp_all add: onNameChange_def onTargetLengthChange_def
       onCharacteristicsChange_def handlePersonalityToggle_def handleResetGoodSubjects_def
       handleResetWeakSubjects_def handleResetPersonality_def handleModelChange_def
       handleReset_def initialStudentInfo_def Let_def\<close>)

lemma reachable_disjoint:
  "reachable s \<Longrightarrow> set (goodSubjects s) \<inter> set (weakSubjects s) = {}"
proof (induction rule: reachable.induct)
  case reach_init
  show ?case by (simp add: initialStudentInfo_def)
next
  case (reach_step s e)
  from reach_step.IH show ?case by (rule step_disjoint)
qed

text \<open>
  Claim C5. Toggling a subject as good removes it from \<open>weakSubjects\<close>, toggling it as weak
  removes it from \<open>goodSubjects\<close>; a toggle keeps the two lists disjoint, and in every
  reachable form state their intersection is empty.
\<close>

theorem subjects_disjoint:
  "subject \<notin> set (weakSubjects (handleSubjectToggle subject Good s)) \<and>
   subject \<notin> set (goodSubjects (handleSubjectToggle subject Weak s)) \<and>
   (set (goodSubjects s) \<inter> set (weakSubjects s) = {} \<longrightarrow>
      set (goodSubjects (handleSubjectToggle subject t s)) \<inter>
      set (weakSubjects (handleSubjectToggle subject t s)) = {}) \<and>
   (reachable s \<longrightarrow> set (goodSubjects s) \<inter> set (weakSubjects s) = {})"
  using toggle_disjoint [of s subject t] reachable_disjoint [of s]
  by (simp add: handleSubjectToggle_def)

theorem subjects_disjoint_witness:
  "reachable (run [SubjectToggle (js ''math'') Good, SubjectToggle (js ''art'') Weak]) \<and>
   goodSubjects (run [SubjectToggle (js ''math'') Good, SubjectToggle (js ''art'') Weak]) = [js ''math''] \<and>
   weakSubjects (run [SubjectToggle (js ''math'') Good, SubjectToggle (js ''art'') Weak]) = [js ''art''] \<and>
   set (goodSubjects (handleSubjectToggle (js ''math'') Weak
          (run [SubjectToggle (js ''math'') Good, SubjectToggle (js ''art'') Weak]))) \<inter>
   set (weakSubjects (handleSubjectToggle (js ''math'') Weak
          (run [SubjectToggle (js ''math'') Good, SubjectToggle (js ''art'') Weak]))) = {}"
proof -
  let ?s = "run [SubjectToggle (js ''math'') Good, SubjectToggle (js ''art'') Weak]"
  have r: "reachable ?s" by (rule reachable_run)
  have g: "goodSubjects ?s = [js ''math'']"
    by (simp add: run_def handleSubjectToggle_def toggleArrayItem_def initialStudentInfo_def js_def)
  have w: "weakSubjects ?s = [js ''art'']"
    by (simp add: run_def handleSubjectToggle_def toggleArrayItem_def initialStudentInfo_def js_def)
  from subjects_disjoint [of "js ''math''" ?s Weak] r g w show ?thesis by simp
qed

subsection \<open>The target length\<close>

lemma clamp_range:
  "50 \<le> targetLength (onTargetLengthChange v s) \<and> targetLength (onTargetLengthChange v s) \<le> 100"
  by (simp add: onTargetLengthChange_def Let_def)

lemma step_range:
  assumes "50 \<le> targetLength s \<and> targetLength s \<le> 100"
  shows "50 \<le> targetLength (step e s) \<and> targetLength (step e s) \<le> 100"
proof (cases e)
  case (TargetLengthChange v)
  then show ?thesis using clamp_range [of v s] by simp
qed (use assms in \<open>simp_all add: onNameChange_def onCharacteristicsChange_def
       handleSubjectToggle_def handlePersonalityToggle_def handleResetGoodSubjects_def
       handleResetWeakSubjects_def handleResetPersonality_def handleModelChange_def
       handleReset_def initialStudentInfo_def Let_def split: SubjectType.splits\<close>)

lemma reachable_range:
  "reachable s \<Longrightarrow> 50 \<le> targetLength s \<and> targetLength s \<le> 100"
proof (induction rule: reachable.induct)
  case reach_init
  show ?case by (simp add: initialStudentInfo_def)
next
  case (reach_step s e)
  from reach_step.IH show ?case by (rule step_range)
qed

lemma parseInt_120: "parseInt (js ''120'') = Some 120"
  by (simp add: parseInt_def js_def trimStart_def isWhiteSpace_def whiteSpaceUnits_def
        isRadixDigit_def digitValue_def mathInt_def)

lemma parseInt_abc: "parseInt (js ''abc'') = None"
  by (simp add: parseInt_def js_def trimStart_def isWhiteSpace_def whiteSpaceUnits_def
        isRadixDigit_def digitValue_def mathInt_def)

text \<open>
  Claim C4. After an edit of the target-length field the stored \<open>targetLength\<close> lies in
  \<open>[50, 100]\<close>: when \<open>parseInt\<close> reads a non-zero number \<open>n\<close> from the input it is
  \<open>min (max n 50) 100\<close>, and when the input is not numeric (the empty input included) it
  is the default 75, so the bounds hold in every reachable form state.
\<close>

theorem targetLength_clamped:
  "50 \<le> targetLength (onTargetLengthChange v s) \<and>
   targetLength (onTargetLengthChange v s) \<le> 100 \<and>
   (\<forall>n. parseInt v = Some n \<and> n \<noteq> 0 \<longrightarrow>
      targetLength (onTargetLengthChange v s) = min (max n 50) 100) \<and>
   (parseInt v = None \<longrightarrow> targetLength (onTargetLengthChange v s) = 75) \<and>
   parseInt [] = None \<and>
   (reachable s \<longrightarrow> 50 \<le> targetLength s \<and> targetLength s \<le> 100)"
  using clamp_range [of v s] reachable_range [of s]
  by (auto simp: onTargetLengthChange_def orDefault_def Let_def parseInt_def trimStart_def)

theorem targetLength_clamped_witness:
  "parseInt (js ''120'') = Some 120 \<and>
   targetLength (onTargetLengthChange (js ''120'') (run [TargetLengthChange (js ''abc'')])) = 100 \<and>
   parseInt (js ''abc'') = None \<and>
   targetLength (onTargetLengthChange (js ''abc'') (run [TargetLengthChange (js ''abc'')])) = 75 \<and>
   reachable (run [TargetLengthChange (js ''abc'')]) \<and>
   50 \<le> targetLength (run [TargetLengthChange (js ''abc'')]) \<and>
   targetLength (run [TargetLengthChange (js ''abc'')]) \<le> 100"
proof -
  let ?s = "run [TargetLengthChange (js ''abc'')]"
  have r: "reachable ?s" by (rule reachable_run)
  from targetLength_clamped [of "js ''120''" ?s] targetLength_clamped [of "js ''abc''" ?s]
       parseInt_120 parseInt_abc r
  show ?thesis by simp
qed

section \<open>Generation is guarded by the input check\<close>

lemma trim_Kim: "trim (js ''Kim'') = js ''Kim''"
  by (simp add: trim_def trimStart_def js_def isWhiteSpace_def whiteSpaceUnits_def)

text \<open>
  Claim C3. When the trimmed name, the trimmed characteristics, \<open>goodSubjects\<close>,
  \<open>weakSubjects\<close> and \<open>personality\<close> are all empty, \<open>handleGenerate\<close> only sets the
  validation error and issues no request; when at least one of the five is not empty it
  issues the \<open>POST /generate-opinions\<close> request.
\<close>

theorem handleGenerate_validation:
  "(trim (name (studentInfo st)) = [] \<and> trim (characteristics (studentInfo st)) = [] \<and>
    goodSubjects (studentInfo st) = [] \<and> weakSubjects (studentInfo st) = [] \<and>
    personality (studentInfo st) = [] \<longrightarrow>
      handleGenerate post st = (st\<lparr> error := Some MSG_NO_INPUT \<rparr>, [])) \<and>
   (trim (name (studentInfo st)) \<noteq> [] \<or> trim (characteristics (studentInfo st)) \<noteq> [] \<or>
    goodSubjects (studentInfo st) \<noteq> [] \<or> weakSubjects (studentInfo st) \<noteq> [] \<or>
    personality (studentInfo st) \<noteq> [] \<longrightarrow>
      snd (handleGenerate post st) =
        [Post (js ''/generate-opinions'') (generateBody (studentInfo st))])"
  by (auto simp: handleGenerate_def hasInput_def Let_def)

theorem handleGenerate_validation_witness:
  "handleGenerate (\<lambda>u b. Inr [])
     \<lparr> studentInfo = initialStudentInfo, opinions = [], isLoading = False, error = None \<rparr> =
     (\<lparr> studentInfo = initialStudentInfo, opinions = [], isLoading = False, error = Some MSG_NO_INPUT \<rparr>, []) \<and>
   snd (handleGenerate (\<lambda>u b. Inr [])
     \<lparr> studentInfo = onNameChange (js ''Kim'') initialStudentInfo, opinions = [], isLoading = False, error = None \<rparr>) =
     [Post (js ''/generate-opinions'')
        \<lparr> GenerateBody.name = Some (js ''Kim''), good_subjects = [], weak_subjects = [],
          GenerateBody.personality = [], GenerateBody.characteristics = None, target_length = 75,
          model_name = js ''gemini-2.5-flash'' \<rparr>]"
proof -
  let ?post = "\<lambda>(u::jsstring) (b::GenerateBody). (Inr [] :: Rejection + jsstring list)"
  let ?st0 = "\<lparr> studentInfo = initialStudentInfo, opinions = [], isLoading = False, error = None \<rparr>"
  let ?st1 = "\<lparr> studentInfo = onNameChange (js ''Kim'') initialStudentInfo, opinions = [],
                isLoading = False, error = None \<rparr>"
  have empty0: "trim (name (studentInfo ?st0)) = [] \<and> trim (characteristics (studentInfo ?st0)) = [] \<and>
      goodSubjects (studentInfo ?st0) = [] \<and> weakSubjects (studentInfo ?st0) = [] \<and>
      personality (studentInfo ?st0) = []"
    by (simp add: initialStudentInfo_def trim_def trimStart_def)
  have name1: "name (studentInfo ?st1) = js ''Kim''"
    by (simp add: onNameChange_def slice0_def js_def)
  have some1: "trim (name (studentInfo ?st1)) \<noteq> []"
    unfolding name1 trim_Kim by (simp add: js_def)
  have body1: "generateBody (studentInfo ?st1) =
      \<lparr> GenerateBody.name = Some (js ''Kim''), good_subjects = [], weak_subjects = [],
        GenerateBody.personality = [], GenerateBody.characteristics = None, target_length = 75,
        model_name = js ''gemini-2.5-flash'' \<rparr>"
    unfolding generateBody_def name1 trim_Kim
    by (simp add: orNull_def onNameChange_def initialStudentInfo_def trim_def trimStart_def js_def)
  from handleGenerate_validation [of ?st0 ?post] empty0
  have "handleGenerate ?post ?st0 = (?st0\<lparr> error := Some MSG_NO_INPUT \<rparr>, [])" by blast
  moreover from handleGenerate_validation [of ?st1 ?post] some1
  have "snd (handleGenerate ?post ?st1) =
          [Post (js ''/generate-opinions'') (generateBody (studentInfo ?st1))]" by blast
  ultimately show ?thesis unfolding body1 by simp
qed

section \<open>Errors surfaced by the API client\<close>

lemma isJString_iff: "isJString v = (\<exists>s. v = JString s)"
  by (cases v) simp_all

lemma responseRejected_truthy:
  assumes "detailAsDeclared e"
  shows "\<exists>m. responseRejected tm e = ErrorObj m \<and> m \<noteq> []"
  using assms
  by (auto simp: responseRejected_def detailAsDeclared_def isJString_iff newError_def
        orLiteral_def orElse_def
        truthy_def Let_def MSG_REQUEST_FAILED_def MSG_NO_CONNECTION_def MSG_REQUEST_SETUP_def
        split: option.splits json.splits)

text \<open>
  Claim C9, as amended. For a failed response whose \<open>detail\<close> is absent, falsy or a string,
  as the declared type says, the rejection carries the server's \<open>detail\<close> string when
  there is one (a non-empty string, as \<open>||\<close> reads presence), else the status text when
  that is not empty, else the fixed generic message; with no response but a request, the
  fixed connection-failure message. For such a response the message is always the detail,
  the status text or one of the three fixed messages, never the payload. A truthy
  \<open>detail\<close> that is not a string becomes the message through \<open>ToString\<close>.
\<close>

theorem interceptor_message:
  "(response err = Some r \<and> optDetail (data r) = Some (JString d) \<and> d \<noteq> [] \<longrightarrow>
      responseRejected tm err = ErrorObj d) \<and>
   (response err = Some r \<and> \<not> truthy (optDetail (data r)) \<and> statusText r \<noteq> [] \<longrightarrow>
      responseRejected tm err = ErrorObj (statusText r)) \<and>
   (response err = Some r \<and> \<not> truthy (optDetail (data r)) \<and> statusText r = [] \<longrightarrow>
      responseRejected tm err = ErrorObj MSG_REQUEST_FAILED) \<and>
   (response err = None \<and> request err \<longrightarrow> responseRejected tm err = ErrorObj MSG_NO_CONNECTION) \<and>
   (detailAsDeclared err \<longrightarrow>
      (\<exists>m. responseRejected tm err = ErrorObj m \<and>
         (m \<in> {MSG_REQUEST_FAILED, MSG_NO_CONNECTION, MSG_REQUEST_SETUP} \<or>
          (\<exists>r'. response err = Some r' \<and>
             (optDetail (data r') = Some (JString m) \<or> statusText r' = m))))) \<and>
   (response err = Some r \<and> optDetail (data r) = Some v \<and> truthyValue v \<longrightarrow>
      responseRejected tm err =
        (case toStringJS v of Returns m \<Rightarrow> ErrorObj m | Throws \<Rightarrow> ErrorObj tm))"
  by (auto simp: responseRejected_def detailAsDeclared_def isJString_iff newError_def
        orLiteral_def orElse_def truthy_def Let_def split: option.splits json.splits)

theorem interceptor_message_witness:
  "responseRejected (js ''TypeError'')
     \<lparr> response = Some \<lparr> data = Some (JObject [(js ''detail'', JString (js ''bad input''))]),
        status = 400, statusText = js ''Bad Request'' \<rparr>, request = True \<rparr> = ErrorObj (js ''bad input'') \<and>
   responseRejected (js ''TypeError'')
     \<lparr> response = Some \<lparr> data = None, status = 502, statusText = js ''Bad Gateway'' \<rparr>,
        request = True \<rparr> = ErrorObj (js ''Bad Gateway'') \<and>
   responseRejected (js ''TypeError'')
     \<lparr> response = Some \<lparr> data = Some (JObject []), status = 500, statusText = [] \<rparr>,
        request = True \<rparr> = ErrorObj MSG_REQUEST_FAILED \<and>
   responseRejected (js ''TypeError'') \<lparr> response = None, request = True \<rparr> = ErrorObj MSG_NO_CONNECTION \<and>
   detailAsDeclared \<lparr> response = None, request = True \<rparr>"
proof -
  let ?tm = "js ''TypeError''"
  let ?r1 = "\<lparr> data = Some (JObject [(js ''detail'', JString (js ''bad input''))]),
               status = 400, statusText = js ''Bad Request'' \<rparr>"
  let ?r2 = "\<lparr> data = None, status = 502, statusText = js ''Bad Gateway'' \<rparr>"
  let ?r3 = "\<lparr> data = Some (JObject []), status = 500, statusText = [] \<rparr>"
  have d1: "optDetail (data ?r1) = Some (JString (js ''bad input'')) \<and> js ''bad input'' \<noteq> []"
    by (simp add: optDetail_def js_def)
  have d2: "\<not> truthy (optDetail (data ?r2)) \<and> statusText ?r2 \<noteq> []"
    by (simp add: optDetail_def truthy_def js_def)
  have d3: "\<not> truthy (optDetail (data ?r3)) \<and> statusText ?r3 = []"
    by (simp add: optDetail_def truthy_def)
  have d4: "detailAsDeclared \<lparr> response = None, request = True \<rparr>"
    by (simp add: detailAsDeclared_def)
  from interceptor_message
         [where err = "\<lparr> response = Some ?r1, request = True \<rparr>" and r = ?r1
            and d = "js ''bad input''" and tm = ?tm] d1
  have "responseRejected ?tm \<lparr> response = Some ?r1, request = True \<rparr> = ErrorObj (js ''bad input'')"
    by simp
  moreover
  from interceptor_message
         [where err = "\<lparr> response = Some ?r2, request = True \<rparr>" and r = ?r2 and tm = ?tm] d2
  have "responseRejected ?tm \<lparr> response = Some ?r2, request = True \<rparr> = ErrorObj (js ''Bad Gateway'')"
    by simp
  moreover
  from interceptor_message
         [where err = "\<lparr> response = Some ?r3, request = True \<rparr>" and r = ?r3 and tm = ?tm] d3
  have "responseRejected ?tm \<lparr> response = Some ?r3, request = True \<rparr> = ErrorObj MSG_REQUEST_FAILED"
    by simp
  moreover
  from interceptor_message [where err = "\<lparr> response = None, request = True \<rparr>" and tm = ?tm]
  have "responseRejected ?tm \<lparr> response = None, request = True \<rparr> = ErrorObj MSG_NO_CONNECTION"
    by simp
  ultimately show ?thesis using d4 by simp
qed

text \<open>
  Without the restriction to the declared type the statement fails. The body of a 422
  response of the framework carries a list of objects as \<open>detail\<close>; the message is then
  \<open>[object Object]\<close>, which is neither a detail string, nor the status text, nor one of
  the fixed messages.
\<close>

theorem interceptor_message_counterexample:
  "responseRejected (js ''TypeError'')
     \<lparr> response = Some
         \<lparr> data = Some (JObject [(js ''detail'',
                    JArray [JObject [(js ''msg'', JString (js ''field required''))]])]),
           status = 422, statusText = js ''Unprocessable Entity'' \<rparr>,
       request = True \<rparr> = ErrorObj (js ''[object Object]'') \<and>
   js ''[object Object]'' \<noteq> js ''Unprocessable Entity'' \<and>
   js ''[object Object]'' \<noteq> MSG_REQUEST_FAILED \<and>
   js ''[object Object]'' \<noteq> MSG_NO_CONNECTION \<and>
   js ''[object Object]'' \<noteq> MSG_REQUEST_SETUP"
  by (simp add: responseRejected_def newError_def orLiteral_def orElse_def optDetail_def
        truthy_def Let_def js_def MSG_REQUEST_FAILED_def MSG_NO_CONNECTION_def
        MSG_REQUEST_SETUP_def)

section \<open>The model selector's fallback\<close>

text \<open>
  Claim C7. When the fetch of the model list fails, the selector's models are the static
  fallback list, whose three names are gemini-2.5-flash, gemini-2.5-pro and
  gemini-2.5-flash-lite in that order, and the error notice is set (to a non-empty text
  when the rejection comes from the API client and the body's \<open>detail\<close> is as declared);
  when it succeeds, the reported list is stored as it is and the error is cleared.
\<close>

theorem fetchModels_fallback:
  "(get (js ''/available-models'') = Inl err \<longrightarrow>
      models (fst (fetchModels get st)) = fallbackModels \<and>
      SelectorState.error (fst (fetchModels get st)) = Some (errorMessage err MSG_MODELS_FAILED)) \<and>
   (get (js ''/available-models'') = Inr ms \<longrightarrow>
      models (fst (fetchModels get st)) = ms \<and>
      SelectorState.error (fst (fetchModels get st)) = None) \<and>
   map Model.name fallbackModels =
     [js ''gemini-2.5-flash'', js ''gemini-2.5-pro'', js ''gemini-2.5-flash-lite''] \<and>
   (detailAsDeclared e \<longrightarrow> errorMessage (responseRejected tm e) MSG_MODELS_FAILED \<noteq> []) \<and>
   MSG_MODELS_FAILED \<noteq> []"
  using responseRejected_truthy [of e tm]
  by (auto simp: fetchModels_def Let_def fallbackModels_def errorMessage_def MSG_MODELS_FAILED_def)

theorem fetchModels_fallback_witness:
  "models (fst (fetchModels (\<lambda>u. Inl (responseRejected (js ''TypeError'') \<lparr> response = None, request = True \<rparr>))
      \<lparr> models = [], isLoading = True, error = None \<rparr>)) = fallbackModels \<and>
   SelectorState.error (fst (fetchModels (\<lambda>u. Inl (responseRejected (js ''TypeError'') \<lparr> response = None, request = True \<rparr>))
      \<lparr> models = [], isLoading = True, error = None \<rparr>)) = Some MSG_NO_CONNECTION \<and>
   models (fst (fetchModels
      (\<lambda>u. Inr [\<lparr> Model.name = js ''m'', full_name = js ''models/m'', display_name = js ''M'' \<rparr>])
      \<lparr> models = [], isLoading = True, error = Some MSG_NO_CONNECTION \<rparr>)) =
      [\<lparr> Model.name = js ''m'', full_name = js ''models/m'', display_name = js ''M'' \<rparr>] \<and>
   SelectorState.error (fst (fetchModels
      (\<lambda>u. Inr [\<lparr> Model.name = js ''m'', full_name = js ''models/m'', display_name = js ''M'' \<rparr>])
      \<lparr> models = [], isLoading = True, error = Some MSG_NO_CONNECTION \<rparr>)) = None"
proof -
  let ?fail = "\<lambda>u::jsstring. (Inl (responseRejected (js ''TypeError'') \<lparr> response = None, request = True \<rparr>) :: Rejection + Model list)"
  let ?ms = "[\<lparr> Model.name = js ''m'', full_name = js ''models/m'', display_name = js ''M'' \<rparr>]"
  let ?ok = "\<lambda>u::jsstring. (Inr ?ms :: Rejection + Model list)"
  have msg: "errorMessage (responseRejected (js ''TypeError'') \<lparr> response = None, request = True \<rparr>) MSG_MODELS_FAILED =
               MSG_NO_CONNECTION"
    by (simp add: errorMessage_def responseRejected_def newError_def)
  from fetchModels_fallback
         [where get = ?fail
            and err = "responseRejected (js ''TypeError'') \<lparr> response = None, request = True \<rparr>"
            and st = "\<lparr> models = [], isLoading = True, error = None \<rparr>" and ms = "[]"
            and e = "\<lparr> response = None, request = True \<rparr>" and tm = "js ''TypeError''"]
       fetchModels_fallback
         [where get = ?ok and err = "NotAnError"
            and st = "\<lparr> models = [], isLoading = True, error = Some MSG_NO_CONNECTION \<rparr>"
            and ms = ?ms and e = "\<lparr> response = None, request = True \<rparr>"
            and tm = "js ''TypeError''"]
       msg
  show ?thesis by simp
qed

section \<open>Copying to the clipboard\<close>

lemma freshId_greater: "k \<in> set kids \<Longrightarrow> nodeId k < freshId kids"
  unfolding freshId_def by (induction kids) auto

lemma filter_fresh: "filter (\<lambda>k. nodeId k \<noteq> freshId kids) kids = kids"
  by (auto simp: filter_id_conv dest: freshId_greater)

lemma fallback_restores:
  assumes "bodyChildren doc = Some kids"
  shows "execCommandFallback br t doc =
           ((case execCommandCopy br of Returns b \<Rightarrow> Returns b | Throws \<Rightarrow> Returns False), doc)"
  using assms filter_fresh [of kids]
  by (cases "execCommandCopy br")
     (simp_all add: execCommandFallback_def createTextArea_def appendChild_def innerTry_def
        innerCatch_def removeChild_def Let_def)

lemma fallback_no_body:
  assumes "bodyChildren doc = None"
  shows "execCommandFallback br t doc = (Throws, doc)"
  using assms by (simp add: execCommandFallback_def appendChild_def Let_def)

text \<open>
  Claim C10. \<open>copyToClipboard\<close> never throws: for every text, browser and document it
  resolves to a boolean. The boolean is \<open>true\<close> exactly when a copy mechanism reports
  success (the Clipboard API's promise resolves, or, without that API, \<open>execCommand\<close>
  returns \<open>true\<close>); it is \<open>false\<close> when, without the Clipboard API, \<open>execCommand\<close> fails,
  and when anything throws. On the \<open>execCommand\<close> path the textarea is gone from the
  document afterwards, whether \<open>execCommand\<close> returned or threw.
\<close>

theorem copyToClipboard_total:
  "(\<exists>b. fst (copyToClipboard br t doc) = Returns b) \<and>
   ((fst (copyToClipboard br t doc) = Returns True) =
      ((\<exists>w. writeText br = Some w \<and> w t = Returns ()) \<or>
       (writeText br = None \<and> bodyChildren doc \<noteq> None \<and> execCommandCopy br = Returns True))) \<and>
   (writeText br = None \<and> execCommandCopy br \<noteq> Returns True \<longrightarrow>
      fst (copyToClipboard br t doc) = Returns False) \<and>
   (writeText br = None \<and> bodyChildren doc = None \<longrightarrow>
      fst (copyToClipboard br t doc) = Returns False) \<and>
   (\<forall>w. writeText br = Some w \<and> w t = Throws \<longrightarrow>
      fst (copyToClipboard br t doc) = Returns False) \<and>
   (writeText br = None \<longrightarrow> snd (copyToClipboard br t doc) = doc)"
proof (cases "bodyChildren doc")
  case None
  from fallback_no_body [OF None, of br t] None show ?thesis
    by (auto simp: copyToClipboard_def outerTry_def split: option.splits outcome.splits)
next
  case (Some kids)
  from fallback_restores [OF Some, of br t] Some show ?thesis
    by (auto simp: copyToClipboard_def outerTry_def split: option.splits outcome.splits)
qed

theorem copyToClipboard_total_witness:
  "copyToClipboard \<lparr> writeText = None, execCommandCopy = Returns True \<rparr> (js ''hello'')
      \<lparr> bodyChildren = Some [] \<rparr> = (Returns True, \<lparr> bodyChildren = Some [] \<rparr>) \<and>
   fst (copyToClipboard \<lparr> writeText = None, execCommandCopy = Throws \<rparr> (js ''hello'')
      \<lparr> bodyChildren = Some [] \<rparr>) = Returns False \<and>
   fst (copyToClipboard \<lparr> writeText = Some (\<lambda>s. Throws), execCommandCopy = Returns True \<rparr> (js ''hello'')
      \<lparr> bodyChildren = None \<rparr>) = Returns False"
proof -
  let ?doc = "\<lparr> bodyChildren = Some [] \<rparr>"
  let ?a = "\<lparr> writeText = None, execCommandCopy = Returns True \<rparr>"
  let ?b = "\<lparr> writeText = None, execCommandCopy = Throws \<rparr>"
  let ?c = "\<lparr> writeText = Some (\<lambda>s::jsstring. (Throws :: unit outcome)), execCommandCopy = Returns True \<rparr>"
  from copyToClipboard_total [of ?a "js ''hello''" ?doc]
  have "fst (copyToClipboard ?a (js ''hello'') ?doc) = Returns True"
    and "snd (copyToClipboard ?a (js ''hello'') ?doc) = ?doc" by simp_all
  then have "copyToClipboard ?a (js ''hello'') ?doc = (Returns True, ?doc)"
    by (metis prod.collapse)
  moreover from copyToClipboard_total [of ?b "js ''hello''" ?doc]
  have "fst (copyToClipboard ?b (js ''hello'') ?doc) = Returns False" by simp
  moreover from copyToClipboard_total [of ?c "js ''hello''" "\<lparr> bodyChildren = None \<rparr>"]
  have "fst (copyToClipboard ?c (js ''hello'') \<lparr> bodyChildren = None \<rparr>) = Returns False" by simp
  ultimately show ?thesis by simp
qed

section \<open>Properties of the opinion-generation core\<close>

subsection \<open>Model resolution\<close>

lemma findByName_Some: "findByName n ds = Some d \<Longrightarrow> d \<in> set ds \<and> md_name d = n"
  unfolding findByName_def by (induction ds) (auto split: if_splits)

lemma findByName_None: "(findByName n ds = None) = (n \<notin> md_name ` set ds)"
  unfolding findByName_def by (induction ds) auto

text \<open>
  Claim C2. On the empty snapshot resolution fails with \<open>ModelUnavailable\<close>. On a
  non-empty snapshot it succeeds for every requested name, with a descriptor of the
  snapshot: the one with the requested name when there is one, else the flash-tier model,
  else the pro-tier model, else the first descriptor.
\<close>

theorem resolve_fallback_order:
  "(descriptors snap = [] \<longrightarrow> resolve req snap = Inl ModelUnavailable) \<and>
   (descriptors snap \<noteq> [] \<longrightarrow>
      (\<exists>d \<in> set (descriptors snap). resolve req snap = Inr d \<and>
         (if req \<in> md_name ` set (descriptors snap) then md_name d = req
          else if flashTier \<in> md_name ` set (descriptors snap) then md_name d = flashTier
          else if proTier \<in> md_name ` set (descriptors snap) then md_name d = proTier
          else d = hd (descriptors snap))))"
proof (intro conjI impI)
  assume "descriptors snap = []"
  then show "resolve req snap = Inl ModelUnavailable"
    by (simp add: resolve_def findByName_def)
next
  assume ne: "descriptors snap \<noteq> []"
  let ?ds = "descriptors snap"
  show "\<exists>d \<in> set ?ds. resolve req snap = Inr d \<and>
         (if req \<in> md_name ` set ?ds then md_name d = req
          else if flashTier \<in> md_name ` set ?ds then md_name d = flashTier
          else if proTier \<in> md_name ` set ?ds then md_name d = proTier
          else d = hd ?ds)"
  proof (cases "findByName req ?ds")
    case (Some d)
    with findByName_Some [OF Some] findByName_None [of req ?ds] show ?thesis
      by (auto simp: resolve_def)
  next
    case r: None
    show ?thesis
    proof (cases "findByName flashTier ?ds")
      case (Some d)
      with r findByName_Some [OF Some] findByName_None [of req ?ds]
        findByName_None [of flashTier ?ds]
      show ?thesis by (auto simp: resolve_def)
    next
      case f: None
      show ?thesis
      proof (cases "findByName proTier ?ds")
        case (Some d)
        with r f findByName_Some [OF Some] findByName_None [of req ?ds]
          findByName_None [of flashTier ?ds] findByName_None [of proTier ?ds]
        show ?thesis by (auto simp: resolve_def)
      next
        case p: None
        from ne obtain d rest where ds: "?ds = d # rest" by (cases ?ds) auto
        with r f p findByName_None [of req ?ds]
          findByName_None [of flashTier ?ds] findByName_None [of proTier ?ds]
        show ?thesis by (auto simp: resolve_def)
      qed
    qed
  qed
qed

theorem resolve_fallback_order_witness:
  "resolve ''unknown-model''
     \<lparr> descriptors =
         [\<lparr> md_name = ''gemini-2.5-flash-lite'', md_fullName = ''models/gemini-2.5-flash-lite'',
            md_displayName = ''Lite'' \<rparr>,
          \<lparr> md_name = ''gemini-2.5-pro'', md_fullName = ''models/gemini-2.5-pro'',
            md_displayName = ''Pro'' \<rparr>],
       fetchedAt = 0 \<rparr> =
     Inr \<lparr> md_name = ''gemini-2.5-pro'', md_fullName = ''models/gemini-2.5-pro'', md_displayName = ''Pro'' \<rparr> \<and>
   resolve ''unknown-model'' \<lparr> descriptors = [], fetchedAt = 0 \<rparr> = Inl ModelUnavailable"
  using resolve_fallback_order
          [of "\<lparr> descriptors =
                  [\<lparr> md_name = ''gemini-2.5-flash-lite'', md_fullName = ''models/gemini-2.5-flash-lite'',
                     md_displayName = ''Lite'' \<rparr>,
                   \<lparr> md_name = ''gemini-2.5-pro'', md_fullName = ''models/gemini-2.5-pro'',
                     md_displayName = ''Pro'' \<rparr>],
                fetchedAt = 0 \<rparr>" "''unknown-model''"]
        resolve_fallback_order [of "\<lparr> descriptors = [], fetchedAt = 0 \<rparr>" "''unknown-model''"]
  by (simp add: flashTier_def proTier_def)

subsection \<open>Five opinions or one error\<close>

lemma dropWhile_prefix:
  assumes "dropWhile P xs = ys @ zs"
  shows "dropWhile P ys = ys"
proof (cases ys)
  case Nil
  then show ?thesis by simp
next
  case (Cons a as)
  with assms have "dropWhile P xs = a # (as @ zs)" by simp
  then have "\<not> P a"
    using dropWhile_eq_Cons_conv [of P xs a "as @ zs"] by blast
  with Cons show ?thesis by simp
qed

lemma dropWhile_strip: "dropWhile isSpace (strip s) = strip s"
proof -
  let ?u = "dropWhile isSpace s"
  have "?u = strip s @ rev (takeWhile isSpace (rev ?u))"
    unfolding strip_def by (metis rev_append rev_rev_ident takeWhile_dropWhile_id)
  then show ?thesis by (rule dropWhile_prefix)
qed

lemma strip_idem: "strip (strip s) = strip s"
proof -
  have "strip (strip s) = rev (dropWhile isSpace (rev (strip s)))"
    using dropWhile_strip [of s] by (simp add: strip_def)
  also have "\<dots> = strip s" by (simp add: strip_def)
  finally show ?thesis .
qed

lemma firstYield_Some:
  "firstYield ts raw = Some ops \<Longrightarrow> \<exists>t \<in> set ts. yieldsFive (t raw) \<and> ops = map strip (t raw)"
  by (induction ts) (auto split: if_splits)

lemma firstYield_None: "(firstYield ts raw = None) = (\<forall>t \<in> set ts. \<not> yieldsFive (t raw))"
  by (induction ts) auto

lemma parse_shape:
  assumes "parse dec raw = Inr ops"
  shows "length ops = 5 \<and> (\<forall>o' \<in> set ops. o' \<noteq> [] \<and> strip o' = o')"
proof -
  from assms have "firstYield (tiers dec) raw = Some ops"
    by (simp add: parse_def split: option.splits)
  then obtain t where "yieldsFive (t raw)" and "ops = map strip (t raw)"
    using firstYield_Some by blast
  then show ?thesis by (auto simp: yieldsFive_def list_all_iff strip_idem)
qed

lemma parse_error: "parse dec raw = Inl e \<Longrightarrow> e = ParseError raw"
  by (auto simp: parse_def split: option.splits)

lemma parse_fails_iff:
  "(parse dec raw = Inl (ParseError raw)) = (\<forall>t \<in> set (tiers dec). \<not> yieldsFive (t raw))"
  using firstYield_None [of "tiers dec" raw] by (auto simp: parse_def split: option.splits)

lemma generate_error: "generate p r = Inl e \<Longrightarrow> \<exists>f. e = ProviderError f"
  by (auto simp: generate_def split: sum.splits ProviderFailure.splits)

lemma resolve_error: "resolve n s = Inl e \<Longrightarrow> e = ModelUnavailable"
  by (auto simp: resolve_def split: option.splits list.splits)

lemma generateOpinions_Inr: "generateOpinions svc a = Inr ops \<Longrightarrow> length ops = 5"
  by (auto simp: generateOpinions_def Let_def split: sum.splits dest: parse_shape)

lemma generateOpinions_Inl:
  "generateOpinions svc a = Inl e \<Longrightarrow>
     e = ModelUnavailable \<or> (\<exists>f. e = ProviderError f) \<or> (\<exists>raw. e = ParseError raw)"
  by (auto simp: generateOpinions_def Let_def split: sum.splits
        dest: parse_error generate_error resolve_error)

text \<open>The fixed inputs of section 8 of the specification, one per tier.\<close>

lemma tierStructured_example:
  "parse (\<lambda>s. Some (DArray [DString ''a'', DString ''b'', DString ''c'', DString ''d'', DString ''e'']))
     ''[...]'' = Inr [''a'', ''b'', ''c'', ''d'', ''e'']"
  by code_simp

lemma tierNumbered_example:
  "tierNumbered [CHR ''1'', CHR ''.'', CHR '' '', CHR ''A'', CHR 0x0A,
                 CHR ''2'', CHR ''.'', CHR '' '', CHR ''B'', CHR 0x0A,
                 CHR ''3'', CHR ''.'', CHR '' '', CHR ''C'', CHR 0x0A,
                 CHR ''4'', CHR ''.'', CHR '' '', CHR ''D'', CHR 0x0A,
                 CHR ''5'', CHR ''.'', CHR '' '', CHR ''E''] = [''A'', ''B'', ''C'', ''D'', ''E'']"
  by code_simp

lemma tierQuoted_example:
  "tierQuoted [CHR 0x22, CHR ''A'', CHR 0x22, CHR '' '', CHR 0x22, CHR ''B'', CHR 0x22, CHR '' '',
               CHR 0x22, CHR ''C'', CHR 0x22, CHR '' '', CHR 0x22, CHR ''D'', CHR 0x22, CHR '' '',
               CHR 0x22, CHR ''E'', CHR 0x22] = [''A'', ''B'', ''C'', ''D'', ''E'']"
  by code_simp

lemma tierLines_example:
  "tierLines [CHR ''A'', CHR 0x0A, CHR 0x0A, CHR ''B'', CHR 0x0A, CHR ''C'', CHR 0x0A, CHR 0x0A,
              CHR ''D'', CHR 0x0A, CHR ''E'', CHR 0x0A, CHR ''F''] = [''A'', ''B'', ''C'', ''D'', ''E'']"
  by code_simp

lemma generateOpinions_example:
  "generateOpinions
     \<lparr> catalogCurrent =
         \<lparr> descriptors = [\<lparr> md_name = ''gemini-2.5-flash'', md_fullName = ''models/gemini-2.5-flash'',
                              md_displayName = ''Flash'' \<rparr>], fetchedAt = 0 \<rparr>,
       build = (\<lambda>a. ''prompt''),
       generateText = (\<lambda>k r. Inr [CHR ''A'', CHR 0x0A, CHR 0x0A, CHR ''B'', CHR 0x0A, CHR ''C'', CHR 0x0A,
                                    CHR 0x0A, CHR ''D'', CHR 0x0A, CHR ''E'', CHR 0x0A, CHR ''F'']),
       decodeDocument = (\<lambda>s. None),
       maxChars = None \<rparr>
     \<lparr> attr_name = None, attr_goodSubjects = [''math''], attr_weakSubjects = [],
       attr_personalityTraits = [], attr_characteristics = None, attr_targetLength = 75,
       attr_modelName = ''gemini-2.5-flash'' \<rparr> = Inr [''A'', ''B'', ''C'', ''D'', ''E'']"
  by code_simp

lemma no_tier_example: "\<forall>t \<in> set (tiers (\<lambda>s. None)). \<not> yieldsFive (t ''only one line'')"
  by code_simp

text \<open>
  Claim C1. A request to the pipeline ends with exactly five opinions or with one typed
  error (model unavailable, a provider error or a parse error), never with another number
  of opinions. The parser returns five non-empty trimmed strings or \<open>ParseError\<close> with
  the raw text, and it fails exactly when no tier yields exactly five non-empty trimmed
  strings.
\<close>

theorem five_or_error:
  "(case generateOpinions svc a of
      Inl e \<Rightarrow> e = ModelUnavailable \<or> (\<exists>f. e = ProviderError f) \<or> (\<exists>raw. e = ParseError raw)
    | Inr ops \<Rightarrow> length ops = 5) \<and>
   (case parse dec raw of
      Inl e \<Rightarrow> e = ParseError raw
    | Inr ops \<Rightarrow> length ops = 5 \<and> (\<forall>o' \<in> set ops. o' \<noteq> [] \<and> strip o' = o')) \<and>
   ((parse dec raw = Inl (ParseError raw)) = (\<forall>t \<in> set (tiers dec). \<not> yieldsFive (t raw)))"
  using generateOpinions_Inr [of svc a] generateOpinions_Inl [of svc a]
    parse_shape [of dec raw] parse_error [of dec raw] parse_fails_iff [of dec raw]
  by (simp split: sum.splits)

theorem five_or_error_witness:
  "generateOpinions
     \<lparr> catalogCurrent =
         \<lparr> descriptors = [\<lparr> md_name = ''gemini-2.5-flash'', md_fullName = ''models/gemini-2.5-flash'',
                              md_displayName = ''Flash'' \<rparr>], fetchedAt = 0 \<rparr>,
       build = (\<lambda>a. ''prompt''),
       generateText = (\<lambda>k r. Inr [CHR ''A'', CHR 0x0A, CHR 0x0A, CHR ''B'', CHR 0x0A, CHR ''C'', CHR 0x0A,
                                    CHR 0x0A, CHR ''D'', CHR 0x0A, CHR ''E'', CHR 0x0A, CHR ''F'']),
       decodeDocument = (\<lambda>s. None),
       maxChars = None \<rparr>
     \<lparr> attr_name = None, attr_goodSubjects = [''math''], attr_weakSubjects = [],
       attr_personalityTraits = [], attr_characteristics = None, attr_targetLength = 75,
       attr_modelName = ''gemini-2.5-flash'' \<rparr> = Inr [''A'', ''B'', ''C'', ''D'', ''E''] \<and>
   \<not> yieldsFive (tierStructured (\<lambda>s. None) ''only one line'') \<and>
   \<not> yieldsFive (tierNumbered ''only one line'') \<and>
   \<not> yieldsFive (tierQuoted ''only one line'') \<and>
   \<not> yieldsFive (tierLines ''only one line'') \<and>
   parse (\<lambda>s. None) ''only one line'' = Inl (ParseError ''only one line'')"
  using five_or_error
          [where svc = "\<lparr> catalogCurrent =
                   \<lparr> descriptors = [\<lparr> md_name = ''gemini-2.5-flash'', md_fullName = ''models/gemini-2.5-flash'',
                              md_displayName = ''Flash'' \<rparr>], fetchedAt = 0 \<rparr>,
                 build = (\<lambda>a. ''prompt''),
                 generateText = (\<lambda>k r. Inr [CHR ''A'', CHR 0x0A, CHR 0x0A, CHR ''B'', CHR 0x0A, CHR ''C'', CHR 0x0A,
                                    CHR 0x0A, CHR ''D'', CHR 0x0A, CHR ''E'', CHR 0x0A, CHR ''F'']),
                 decodeDocument = (\<lambda>s. None),
                 maxChars = None \<rparr>"
            and a = "\<lparr> attr_name = None, attr_goodSubjects = [''math''], attr_weakSubjects = [],
                 attr_personalityTraits = [], attr_characteristics = None, attr_targetLength = 75,
                 attr_modelName = ''gemini-2.5-flash'' \<rparr>"
            and dec = "\<lambda>s. None" and raw = "''only one line''"]
        generateOpinions_example no_tier_example
  by (simp add: tiers_def)

end
